theory Spec2Isabelle
  imports Main
begin

section \<open>Identity Theft Protection content script: risk scoring\<close>

text \<open>
  The type tags are the keys of \<^verbatim>\<open>KEYWORDS\<close> and \<^verbatim>\<open>TYPE_WEIGHT\<close> in
  \<^verbatim>\<open>identity theft protection/content.js\<close>. \<^verbatim>\<open>detectTypes\<close> only ever adds these
  string literals to its set, so the tags are an enumeration.
\<close>

datatype sens_type =
  Nin | Bvn | BankAccount | BankCode | CardNumber | Cvv | CardExpiry
  | Dob | Passport | Phone | Email | Password | Ssn

text \<open>The tag as the string the script uses for it.\<close>

fun type_name :: "sens_type \<Rightarrow> string" where
  "type_name Nin = ''nin''"
| "type_name Bvn = ''bvn''"
| "type_name BankAccount = ''bankAccount''"
| "type_name BankCode = ''bankCode''"
| "type_name CardNumber = ''cardNumber''"
| "type_name Cvv = ''cvv''"
| "type_name CardExpiry = ''cardExpiry''"
| "type_name Dob = ''dob''"
| "type_name Passport = ''passport''"
| "type_name Phone = ''phone''"
| "type_name Email = ''email''"
| "type_name Password = ''password''"
| "type_name Ssn = ''ssn''"

text \<open>
  \<^verbatim>\<open>TYPE_WEIGHT\<close>: severity of each type. Every tag has an entry, so the
  \<^verbatim>\<open>|| 0\<close> default of \<^verbatim>\<open>TYPE_WEIGHT[t] || 0\<close> is never taken on a tag.
\<close>

fun TYPE_WEIGHT :: "sens_type \<Rightarrow> int" where
  "TYPE_WEIGHT Nin = 55"
| "TYPE_WEIGHT Bvn = 60"
| "TYPE_WEIGHT BankAccount = 55"
| "TYPE_WEIGHT BankCode = 25"
| "TYPE_WEIGHT CardNumber = 80"
| "TYPE_WEIGHT Cvv = 70"
| "TYPE_WEIGHT CardExpiry = 25"
| "TYPE_WEIGHT Dob = 30"
| "TYPE_WEIGHT Passport = 45"
| "TYPE_WEIGHT Phone = 20"
| "TYPE_WEIGHT Email = 20"
| "TYPE_WEIGHT Password = 75"
| "TYPE_WEIGHT Ssn = 70"

datatype level = Low | Mod | High

record risk =
  score :: int
  level :: level
  reasons :: "string list"

text \<open>The destructured argument object of \<^verbatim>\<open>computeRisk\<close>.\<close>

record risk_args =
  types :: "sens_type list"
  https :: bool
  crossOrigin :: bool
  trusted :: bool

text \<open>
  \<^verbatim>\<open>Set.prototype.add\<close> on a set kept as the list of its members in insertion
  order: a member already present stays where it is.
\<close>

definition set_add :: "'a \<Rightarrow> 'a list \<Rightarrow> 'a list" where
  "set_add x acc = (if x \<in> set acc then acc else acc @ [x])"

text \<open>\<^verbatim>\<open>[...new Set(types)]\<close>: the members in order of first occurrence.\<close>

definition unique :: "'a list \<Rightarrow> 'a list" where
  "unique xs = fold set_add xs []"

text \<open>\<^verbatim>\<open>Array.prototype.join\<close> with a separator.\<close>

fun join :: "string \<Rightarrow> string list \<Rightarrow> string" where
  "join sep [] = []"
| "join sep [x] = x"
| "join sep (x # y # ys) = x @ sep @ join sep (y # ys)"

text \<open>
  \<^verbatim>\<open>computeRisk\<close>, statement by statement: the base severity summed over the
  unique types and capped at 100, the three context penalties, the clamp, the level.
\<close>

definition computeRisk :: "risk_args \<Rightarrow> risk" where
  "computeRisk a =
    (let uniqueTypes = unique (types a);
         base = fold (\<lambda>t b. b + TYPE_WEIGHT t) uniqueTypes 0;
         base = min base 100;
         score0 = 0 + base;
         reasons0 = (if uniqueTypes \<noteq> []
                     then [''Contains: '' @ join '', '' (map type_name uniqueTypes)] else []);
         score1 = (if \<not> https a then score0 + 30 else score0);
         reasons1 = (if \<not> https a then reasons0 @ [''Non-HTTPS connection''] else reasons0);
         score2 = (if crossOrigin a then score1 + 20 else score1);
         reasons2 = (if crossOrigin a
                     then reasons1 @ [''Form posts to different origin''] else reasons1);
         score3 = (if \<not> trusted a then score2 + 20 else score2);
         reasons3 = (if \<not> trusted a
                     then reasons2 @ [''Domain not in trusted list''] else reasons2);
         score4 = max 0 (min 100 score3);
         lvl = (if score4 \<ge> 70 then High else if score4 \<ge> 40 then Mod else Low)
     in \<lparr> score = score4, level = lvl, reasons = reasons3 \<rparr>)"

text \<open>
  The three context penalties of \<^verbatim>\<open>computeRisk\<close> added up; used to state facts about
  the score.
\<close>

definition penalties :: "risk_args \<Rightarrow> int" where
  "penalties a = (if \<not> https a then 30 else 0) + (if crossOrigin a then 20 else 0)
     + (if \<not> trusted a then 20 else 0)"

section \<open>Strings of the script\<close>

text \<open>
  A JavaScript string is a sequence of UTF-16 code units: \<^verbatim>\<open>length\<close>, \<^verbatim>\<open>slice\<close> and
  indexing count code units, and the mask character U+2022 is one code unit. The field
  values are therefore lists of code units, each kept as its number.
\<close>

type_synonym js_string = "nat list"

text \<open>An ASCII literal of the source as a string of code units.\<close>

definition js :: "string \<Rightarrow> js_string" where
  "js s = map of_char s"

text \<open>The bullet U+2022 of the masked previews.\<close>

definition bullet :: nat where
  "bullet = 8226"

definition bullets :: "nat \<Rightarrow> js_string" where
  "bullets n = replicate n bullet"

text \<open>\<^verbatim>\<open>\d\<close> (without the unicode flag): the ASCII digits only.\<close>

definition is_digit :: "nat \<Rightarrow> bool" where
  "is_digit c = (48 \<le> c \<and> c \<le> 57)"

text \<open>\<^verbatim>\<open>s.replace(/\D/g, "")\<close>: the digits of the string, in order.\<close>

definition strip_non_digits :: "js_string \<Rightarrow> js_string" where
  "strip_non_digits s = filter is_digit s"

text \<open>\<^verbatim>\<open>parseInt(c, 10)\<close> on a one-digit string.\<close>

definition parseInt :: "nat \<Rightarrow> int" where
  "parseInt c = int c - 48"

text \<open>
  The code units \<^verbatim>\<open>String.prototype.trim\<close> removes at both ends: ECMAScript's
  WhiteSpace and LineTerminator.
\<close>

definition is_js_space :: "nat \<Rightarrow> bool" where
  "is_js_space c =
     (c \<in> set [9, 10, 11, 12, 13, 32, 160, 5760, 8232, 8233, 8239, 8287, 12288, 65279]
      \<or> (8192 \<le> c \<and> c \<le> 8202))"

definition js_trim :: "js_string \<Rightarrow> js_string" where
  "js_trim s = rev (dropWhile is_js_space (rev (dropWhile is_js_space s)))"

text \<open>\<^verbatim>\<open>s.slice(-n)\<close>: the last n code units, the whole string when it is shorter.\<close>

definition slice_last :: "nat \<Rightarrow> js_string \<Rightarrow> js_string" where
  "slice_last n s = drop (length s - n) s"

text \<open>\<^verbatim>\<open>hay.includes(needle)\<close>: the needle occurs as a contiguous run.\<close>

fun starts_with :: "js_string \<Rightarrow> js_string \<Rightarrow> bool" where
  "starts_with hay [] = True"
| "starts_with [] (n # ns) = False"
| "starts_with (h # hs) (n # ns) = (h = n \<and> starts_with hs ns)"

fun js_includes :: "js_string \<Rightarrow> js_string \<Rightarrow> bool" where
  "js_includes [] needle = (needle = [])"
| "js_includes (h # hs) needle = (starts_with (h # hs) needle \<or> js_includes hs needle)"

text \<open>\<^verbatim>\<open>s.split(sep)\<close> for a one-character separator: the pieces between separators.\<close>

fun js_split :: "nat \<Rightarrow> js_string \<Rightarrow> js_string list" where
  "js_split sep [] = [[]]"
| "js_split sep (c # cs) =
     (if c = sep then [] # js_split sep cs
      else (case js_split sep cs of
              [] \<Rightarrow> [[c]]
            | p # ps \<Rightarrow> (c # p) # ps))"

section \<open>Luhn check\<close>

text \<open>
  The loop of \<^verbatim>\<open>luhnCheck\<close>: \<^verbatim>\<open>i\<close> runs from \<^verbatim>\<open>digits.length - 1\<close> down to 0. The
  second argument is \<^verbatim>\<open>i + 1\<close>, the number of digits still to visit, and
  \<open>acc\<close> is the variable \<^verbatim>\<open>sum\<close>.
\<close>

fun luhn_loop :: "js_string \<Rightarrow> nat \<Rightarrow> int \<Rightarrow> bool \<Rightarrow> int" where
  "luhn_loop digits 0 acc flip = acc"
| "luhn_loop digits (Suc i) acc flip =
     (let n = parseInt (digits ! i);
          n = (if flip then (let n = n * 2 in if n > 9 then n - 9 else n) else n)
      in luhn_loop digits i (acc + n) (\<not> flip))"

definition luhnCheck :: "js_string \<Rightarrow> bool" where
  "luhnCheck number =
     (let digits = strip_non_digits number
      in if length digits < 12 then False
         else luhn_loop digits (length digits) 0 False mod 10 = 0)"

text \<open>
  The standard mod-10 check-digit test, as the specification names it, on the digit
  values of a number: counting from the rightmost digit, every second digit is doubled
  (minus 9 when the double exceeds 9), and the digits pass when the total is a
  multiple of 10.
\<close>

fun mod10_total :: "bool \<Rightarrow> int list \<Rightarrow> int" where
  "mod10_total dbl [] = 0"
| "mod10_total dbl (d # ds) =
     (if dbl then (if 2 * d > 9 then 2 * d - 9 else 2 * d) else d) + mod10_total (\<not> dbl) ds"

definition mod10_valid :: "int list \<Rightarrow> bool" where
  "mod10_valid ds = (mod10_total False (rev ds) mod 10 = 0)"

text \<open>The digit values of a field value: its digits, each read as a number.\<close>

definition digit_values :: "js_string \<Rightarrow> int list" where
  "digit_values s = map parseInt (strip_non_digits s)"

section \<open>Masked previews\<close>

text \<open>
  \<^verbatim>\<open>anonymizeSample(value, type)\<close>. The type is a tag, or \<open>None\<close> for the string
  \<^verbatim>\<open>"unknown"\<close> the caller passes when there is no tag. The result \<open>None\<close> is
  \<^verbatim>\<open>null\<close>.
\<close>

definition anonymizeSample :: "js_string \<Rightarrow> sens_type option \<Rightarrow> js_string option" where
  "anonymizeSample v type =
     (if v = [] then None
      else let raw = v in
        if type = Some CardNumber then
          (let digits = strip_non_digits raw
           in Some (if length digits \<ge> 4
                    then bullets 4 @ js '' '' @ bullets 4 @ js '' '' @ bullets 4 @ js '' ''
                         @ slice_last 4 digits
                    else bullets 4))
        else if type = Some BankAccount then
          (let d = strip_non_digits raw
           in Some (if length d \<ge> 4 then js ''Acct '' @ bullets 4 @ slice_last 4 d
                    else js ''Acct '' @ bullets 4))
        else if type = Some Nin \<or> type = Some Bvn then
          Some (bullets 4 @ slice_last 4 raw)
        else if type = Some Email then
          (let pieces = js_split 64 raw;
               u = hd pieces;
               d = (if length pieces \<ge> 2 then pieces ! 1 else [])
           in if d = [] then Some (bullets 3 @ js ''@'' @ bullets 3)
              else let uMask = (if length u > 2 then take 1 u @ bullets 2 @ slice_last 1 u
                                else bullets 3)
                   in Some (uMask @ js ''@'' @ d))
        else if type = Some Phone then
          (let d = strip_non_digits raw
           in Some (if length d \<ge> 4 then bullets 3 @ slice_last 4 d else bullets 3))
        else Some (if length raw > 4 then take 1 raw @ bullets 3 @ slice_last 1 raw
                   else bullets 3))"

section \<open>Field classification\<close>

text \<open>\<^verbatim>\<open>KEYWORDS\<close>: the label and placeholder hints of each type.\<close>

fun KEYWORDS :: "sens_type \<Rightarrow> js_string list" where
  "KEYWORDS Nin = map js [''nin'', ''national id'', ''national identification'',
                          ''national identification number'']"
| "KEYWORDS Bvn = map js [''bvn'', ''bank verification number'']"
| "KEYWORDS BankAccount = map js [''account number'', ''acct no'', ''nuban'', ''iban'']"
| "KEYWORDS BankCode = map js [''bank code'', ''sort code'', ''swift'', ''bic'']"
| "KEYWORDS CardNumber = map js [''card number'', ''credit card'', ''debit card'', ''pan'',
                                 ''visa'', ''mastercard'', ''amex'']"
| "KEYWORDS Cvv = map js [''cvv'', ''cvc'', ''security code'', ''card security'']"
| "KEYWORDS CardExpiry = map js [''expiry'', ''expiration'', ''exp date'', ''mm/yy'', ''mm/yyyy'']"
| "KEYWORDS Dob = map js [''date of birth'', ''dob'', ''birthdate'']"
| "KEYWORDS Passport = map js [''passport'', ''passport number'']"
| "KEYWORDS Phone = map js [''phone'', ''mobile'', ''telephone'', ''tel'']"
| "KEYWORDS Email = map js [''email'', ''e-mail'']"
| "KEYWORDS Password = map js [''password'', ''passcode'', ''pin'', ''otp'', ''one time password'']"
| "KEYWORDS Ssn = map js [''ssn'', ''social security'']"

text \<open>\<^verbatim>\<open>KEYWORDS.t.some(k => ctx.includes(k))\<close>.\<close>

definition keyword_hit :: "js_string \<Rightarrow> sens_type \<Rightarrow> bool" where
  "keyword_hit ctx t = list_ex (\<lambda>k. js_includes ctx k) (KEYWORDS t)"

text \<open>
  A form control as \<^verbatim>\<open>detectTypes\<close> and the change handler read it: its
  \<^verbatim>\<open>value\<close>, its \<^verbatim>\<open>type\<close> attribute, the text \<^verbatim>\<open>getFieldContextText\<close> collects for
  it from the document (labels, placeholder, name; already normalised), and the
  \<^verbatim>\<open>action\<close> attribute of the form that owns it, when it has both.
\<close>

record field =
  el_value :: js_string
  el_type :: string
  el_context :: js_string
  el_form_action :: "js_string option"

text \<open>\<^verbatim>\<open>if (c) types.add(t)\<close>.\<close>

definition add_if :: "bool \<Rightarrow> sens_type \<Rightarrow> sens_type list \<Rightarrow> sens_type list" where
  "add_if c t acc = (if c then set_add t acc else acc)"

text \<open>
  \<^verbatim>\<open>detectTypes(el)\<close>. The regular expressions of \<^verbatim>\<open>PATTERNS\<close> are run by the
  browser's engine: \<open>re t val\<close> stands for \<^verbatim>\<open>PATTERNS.t.test(val)\<close> and is a
  parameter. The result is the set's members in insertion order. The unused
  \<^verbatim>\<open>nval\<close> is left out.
\<close>

definition detectTypes :: "(sens_type \<Rightarrow> js_string \<Rightarrow> bool) \<Rightarrow> field \<Rightarrow> sens_type list" where
  "detectTypes re el =
     (let val = js_trim (el_value el);
          ctx = el_context el;
          types = [];
          types = add_if (re Email val \<or> keyword_hit ctx Email) Email types;
          types = add_if (re Phone val \<or> keyword_hit ctx Phone) Phone types;
          types = add_if ((re CardNumber val \<or> keyword_hit ctx CardNumber)
                          \<and> (let digits = strip_non_digits val
                               in length digits \<ge> 13 \<and> length digits \<le> 19 \<and> luhnCheck val))
                    CardNumber types;
          types = add_if (re Cvv val \<or> keyword_hit ctx Cvv) Cvv types;
          types = add_if (re CardExpiry val \<or> keyword_hit ctx CardExpiry) CardExpiry types;
          types = add_if (re Bvn val \<or> keyword_hit ctx Bvn) Bvn types;
          types = add_if (re Nin val \<or> keyword_hit ctx Nin) Nin types;
          types = add_if (re BankAccount val \<or> keyword_hit ctx BankAccount) BankAccount types;
          types = add_if (re Passport val \<or> keyword_hit ctx Passport) Passport types;
          types = add_if (re Dob val \<or> keyword_hit ctx Dob) Dob types;
          types = add_if (re Ssn val \<or> keyword_hit ctx Ssn) Ssn types;
          types = add_if (el_type el = ''password'' \<or> keyword_hit ctx Password) Password types
      in types)"

section \<open>Settings, audit log and handlers of the content script\<close>

text \<open>\<^verbatim>\<open>SETTINGS\<close>, with the fields of \<^verbatim>\<open>DEFAULT_SETTINGS\<close>.\<close>

record itp_settings =
  enableProtection :: bool
  showInlineTips :: bool
  blockOnHighRisk :: bool
  enableBreachChecks :: bool
  requirePinForTrust :: bool
  pinHash :: "string option"
  trustedDomains :: "js_string list"
  logLimit :: int

definition DEFAULT_SETTINGS :: itp_settings where
  "DEFAULT_SETTINGS =
     \<lparr> enableProtection = True, showInlineTips = True, blockOnHighRisk = True,
       enableBreachChecks = False, requirePinForTrust = False, pinHash = None,
       trustedDomains = [], logLimit = 800 \<rparr>"

text \<open>
  An entry handed to \<^verbatim>\<open>appendLog\<close>. \<open>log_sample\<close> is \<open>None\<close> when the entry
  has no sample or a \<^verbatim>\<open>null\<close> one; \<open>log_formAction\<close> is \<open>None\<close> for \<^verbatim>\<open>null\<close>.
\<close>

record log_entry =
  log_ts :: int
  log_url :: js_string
  log_host :: js_string
  log_https :: bool
  log_formAction :: "js_string option"
  log_types :: "sens_type list"
  log_risk :: int
  log_level :: level
  log_sample :: "js_string option"
  log_action :: string

text \<open>
  \<^verbatim>\<open>Array.prototype.shift\<close>: drops the first element; on an empty array it changes
  nothing.
\<close>

fun js_shift :: "'a list \<Rightarrow> 'a list" where
  "js_shift [] = []"
| "js_shift (x # xs) = xs"

text \<open>
  The ring-buffer loop \<^verbatim>\<open>while (logs.length > limit) logs.shift()\<close>. With a negative
  limit the condition stays true on the empty array and the loop never ends: that is
  the value \<open>None\<close>.
\<close>

partial_function (option) ring_trim :: "int \<Rightarrow> 'a list \<Rightarrow> 'a list option" where
  "ring_trim limit logs =
     (if int (length logs) > limit then ring_trim limit (js_shift logs) else Some logs)"

text \<open>\<^verbatim>\<open>SETTINGS.logLimit || DEFAULT_SETTINGS.logLimit\<close>: 0 is falsy.\<close>

definition effective_logLimit :: "itp_settings \<Rightarrow> int" where
  "effective_logLimit s = (if logLimit s \<noteq> 0 then logLimit s else logLimit DEFAULT_SETTINGS)"

text \<open>
  \<^verbatim>\<open>appendLog(entry)\<close> on the value stored under \<^verbatim>\<open>itpLogs\<close> (\<open>None\<close> when it is
  absent or not an array). The result is the array written back under \<^verbatim>\<open>itpLogs\<close>,
  or \<open>None\<close> when the loop never ends and nothing is written.
\<close>

definition appendLog :: "itp_settings \<Rightarrow> log_entry \<Rightarrow> log_entry list option \<Rightarrow> log_entry list option" where
  "appendLog s entry itpLogs =
     (let logs = (case itpLogs of Some l \<Rightarrow> l | None \<Rightarrow> []);
          logs = logs @ [entry]
      in ring_trim (effective_logLimit s) logs)"

text \<open>
  What the handlers read from the browser: the regular-expression engine (see
  \<open>detectTypes\<close>), \<^verbatim>\<open>hostnameFromUrl\<close> (the browser's URL parser, resolving against the
  page), \<^verbatim>\<open>location.href\<close>, \<^verbatim>\<open>CURRENT_HOST\<close>, \<^verbatim>\<open>isHTTPS()\<close> and \<^verbatim>\<open>Date.now()\<close>.
\<close>

record browser =
  pattern_test :: "sens_type \<Rightarrow> js_string \<Rightarrow> bool"
  hostnameFromUrl :: "js_string \<Rightarrow> js_string"
  location_href :: js_string
  CURRENT_HOST :: js_string
  isHTTPS :: bool
  date_now :: int

text \<open>A form: its \<^verbatim>\<open>action\<close> attribute and its inputs, textareas and selects.\<close>

record form =
  form_action :: "js_string option"
  form_inputs :: "field list"

text \<open>The module-level variables of the script.\<close>

record content_state =
  SETTINGS :: itp_settings
  proceedOnceFlag :: bool
  pendingFormToSubmit :: "form option"

text \<open>The payload of \<^verbatim>\<open>openDetailModal\<close>.\<close>

record detail =
  detail_level :: level
  detail_score :: int
  detail_reasons :: "string list"
  detail_types :: "sens_type list"
  detail_https :: bool
  detail_crossOrigin :: bool
  detail_formActionHost :: js_string

text \<open>
  \<^verbatim>\<open>formAction ? hostnameFromUrl(formAction) : CURRENT_HOST\<close>: a missing or empty
  attribute is falsy.
\<close>

definition action_host :: "browser \<Rightarrow> js_string option \<Rightarrow> js_string" where
  "action_host b formAction =
     (case formAction of
        None \<Rightarrow> CURRENT_HOST b
      | Some a \<Rightarrow> if a \<noteq> [] then hostnameFromUrl b a else CURRENT_HOST b)"

text \<open>\<^verbatim>\<open>formAction || null\<close>.\<close>

definition or_null :: "js_string option \<Rightarrow> js_string option" where
  "or_null formAction =
     (case formAction of None \<Rightarrow> None | Some a \<Rightarrow> if a \<noteq> [] then Some a else None)"

text \<open>
  The effects of one run of the submit listener of \<^verbatim>\<open>hookAllForms\<close>: the module
  variables afterwards, whether \<^verbatim>\<open>preventDefault\<close> was called, the modal opened, and
  the entries passed to \<^verbatim>\<open>appendLog\<close> (which runs asynchronously, afterwards).
\<close>

record submit_outcome =
  submit_state :: content_state
  defaultPrevented :: bool
  submit_modal :: "detail option"
  submit_logged :: "log_entry list"

text \<open>
  \<^verbatim>\<open>inputs.forEach(el => detectTypes(el).forEach(t => types.add(t)))\<close>.
\<close>

definition form_types :: "browser \<Rightarrow> form \<Rightarrow> sens_type list" where
  "form_types b f =
     fold (\<lambda>el types. fold set_add (detectTypes (pattern_test b) el) types) (form_inputs f) []"

text \<open>
  The entry the submit listener logs for the detected types and the computed risk, with
  the given action.
\<close>

definition submit_entry ::
  "browser \<Rightarrow> form \<Rightarrow> sens_type list \<Rightarrow> risk \<Rightarrow> string \<Rightarrow> log_entry" where
  "submit_entry b f ts r act =
     \<lparr> log_ts = date_now b, log_url = location_href b, log_host = CURRENT_HOST b,
       log_https = isHTTPS b, log_formAction = or_null (form_action f),
       log_types = ts, log_risk = score r, log_level = level r, log_sample = None,
       log_action = act \<rparr>"

text \<open>The submit listener of \<^verbatim>\<open>hookAllForms\<close>.\<close>

definition on_submit :: "browser \<Rightarrow> content_state \<Rightarrow> form \<Rightarrow> submit_outcome" where
  "on_submit b st f =
     (if \<not> enableProtection (SETTINGS st)
      then \<lparr> submit_state = st, defaultPrevented = False, submit_modal = None, submit_logged = [] \<rparr>
      else let types = form_types b f in
        if types = []
        then \<lparr> submit_state = st, defaultPrevented = False, submit_modal = None, submit_logged = [] \<rparr>
        else let formAction = form_action f;
                 formActionHost = action_host b formAction;
                 crossOrigin = (formActionHost \<noteq> [] \<and> formActionHost \<noteq> CURRENT_HOST b);
                 risk = computeRisk \<lparr> types = types, https = isHTTPS b,
                          crossOrigin = crossOrigin,
                          trusted = (CURRENT_HOST b \<in> set (trustedDomains (SETTINGS st))) \<rparr>
             in if blockOnHighRisk (SETTINGS st) \<and> level risk = High
                   \<and> CURRENT_HOST b \<notin> set (trustedDomains (SETTINGS st))
                   \<and> \<not> proceedOnceFlag st
                then \<lparr> submit_state = st \<lparr> pendingFormToSubmit := Some f \<rparr>,
                       defaultPrevented = True,
                       submit_modal = Some \<lparr> detail_level = level risk, detail_score = score risk,
                         detail_reasons = reasons risk, detail_types = types,
                         detail_https = isHTTPS b, detail_crossOrigin = crossOrigin,
                         detail_formActionHost = formActionHost \<rparr>,
                       submit_logged = [submit_entry b f types risk ''blocked-submit''] \<rparr>
                else \<lparr> submit_state = (if proceedOnceFlag st
                                         then st \<lparr> proceedOnceFlag := False \<rparr> else st),
                       defaultPrevented = False, submit_modal = None,
                       submit_logged = [submit_entry b f types risk ''allowed-submit''] \<rparr>)"

text \<open>
  The risk the submit listener computes for a form: \<^verbatim>\<open>computeRisk\<close> on the types of
  its inputs, the page's protocol, whether the form action names another host, and
  whether the current host is trusted.
\<close>

definition form_risk :: "browser \<Rightarrow> content_state \<Rightarrow> form \<Rightarrow> risk" where
  "form_risk b st f =
     (let formActionHost = action_host b (form_action f);
          crossOrigin = (formActionHost \<noteq> [] \<and> formActionHost \<noteq> CURRENT_HOST b)
      in computeRisk \<lparr> types = form_types b f, https = isHTTPS b, crossOrigin = crossOrigin,
                       trusted = (CURRENT_HOST b \<in> set (trustedDomains (SETTINGS st))) \<rparr>)"

text \<open>
  The submission was blocked: the submit event was cancelled and the override modal
  opened.
\<close>

definition blocked :: "submit_outcome \<Rightarrow> bool" where
  "blocked out = (defaultPrevented out \<and> submit_modal out \<noteq> None)"

text \<open>
  The blocking condition of the submit listener: blocking on high risk is enabled, the
  computed level is high, the current host is not trusted and no one-time proceed
  override is pending.
\<close>

definition block_condition :: "browser \<Rightarrow> content_state \<Rightarrow> form \<Rightarrow> bool" where
  "block_condition b st f =
     (blockOnHighRisk (SETTINGS st) \<and> level (form_risk b st f) = High
      \<and> CURRENT_HOST b \<notin> set (trustedDomains (SETTINGS st))
      \<and> \<not> proceedOnceFlag st)"

text \<open>The outcome of a listener run that returns at once: nothing happens.\<close>

definition untouched :: "content_state \<Rightarrow> submit_outcome" where
  "untouched st =
     \<lparr> submit_state = st, defaultPrevented = False, submit_modal = None, submit_logged = [] \<rparr>"

text \<open>
  The effects of one run of the change handler of \<^verbatim>\<open>hookAllInputs\<close>: the e-mail sent
  for a breach check, the level of the badge shown (\<open>None\<close>: badge removed), whether the
  high-risk tip was shown, and the entries passed to \<^verbatim>\<open>appendLog\<close>.
\<close>

record change_outcome =
  breach_check :: "js_string option"
  badge :: "level option"
  tip_shown :: bool
  change_logged :: "log_entry list"

text \<open>\<^verbatim>\<open>types[0] || "unknown"\<close>.\<close>

definition first_type :: "sens_type list \<Rightarrow> sens_type option" where
  "first_type ts = (case ts of [] \<Rightarrow> None | t # rest \<Rightarrow> Some t)"

text \<open>The debounced \<^verbatim>\<open>onChange\<close> handler of \<^verbatim>\<open>hookAllInputs\<close>.\<close>

definition onChange :: "browser \<Rightarrow> content_state \<Rightarrow> field \<Rightarrow> change_outcome" where
  "onChange b st el =
     (if \<not> enableProtection (SETTINGS st)
      then \<lparr> breach_check = None, badge = None, tip_shown = False, change_logged = [] \<rparr>
      else let types = detectTypes (pattern_test b) el in
        if length types = 0
        then \<lparr> breach_check = None, badge = None, tip_shown = False, change_logged = [] \<rparr>
        else let emailVal = js_trim (el_value el);
                 breach = (if enableBreachChecks (SETTINGS st) \<and> Email \<in> set types
                              \<and> pattern_test b Email emailVal
                           then Some emailVal else None);
                 formAction = el_form_action el;
                 formActionHost = action_host b formAction;
                 crossOrigin = (formActionHost \<noteq> [] \<and> formActionHost \<noteq> CURRENT_HOST b);
                 risk = computeRisk \<lparr> types = types, https = isHTTPS b,
                          crossOrigin = crossOrigin,
                          trusted = (CURRENT_HOST b \<in> set (trustedDomains (SETTINGS st))) \<rparr>
             in \<lparr> breach_check = breach,
                  badge = Some (level risk),
                  tip_shown = (showInlineTips (SETTINGS st) \<and> level risk = High),
                  change_logged =
                    [\<lparr> log_ts = date_now b, log_url = location_href b,
                       log_host = CURRENT_HOST b, log_https = isHTTPS b,
                       log_formAction = or_null formAction, log_types = types,
                       log_risk = score risk, log_level = level risk,
                       log_sample = anonymizeSample (el_value el) (first_type types),
                       log_action = ''field-change'' \<rparr>] \<rparr>)"

section \<open>Example inputs\<close>

text \<open>
  A regular-expression engine under which no pattern matches, and one under which
  every pattern matches.
\<close>

definition no_match :: "sens_type \<Rightarrow> js_string \<Rightarrow> bool" where
  "no_match t v = False"

definition all_match :: "sens_type \<Rightarrow> js_string \<Rightarrow> bool" where
  "all_match t v = True"

text \<open>
  An insecure page of \<^verbatim>\<open>shop.example\<close> whose form actions resolve to
  \<^verbatim>\<open>collect.example\<close>, at time 1000. None of the \<^verbatim>\<open>PATTERNS\<close> matches the field
  values used with it below (\<^verbatim>\<open>12\<close>, \<^verbatim>\<open>hunter2\<close>, \<^verbatim>\<open>hello\<close>).
\<close>

definition example_page :: browser where
  "example_page =
     \<lparr> pattern_test = no_match, hostnameFromUrl = (\<lambda>u. js ''collect.example''),
       location_href = js ''http://shop.example/pay'', CURRENT_HOST = js ''shop.example'',
       isHTTPS = False, date_now = 1000 \<rparr>"

definition example_state :: content_state where
  "example_state =
     \<lparr> SETTINGS = DEFAULT_SETTINGS, proceedOnceFlag = False, pendingFormToSubmit = None \<rparr>"

text \<open>A password input, a text input labelled BVN holding two digits, and a comment box.\<close>

definition password_field :: field where
  "password_field =
     \<lparr> el_value = js ''hunter2'', el_type = ''password'', el_context = js ''password'',
       el_form_action = Some (js ''https://collect.example/login'') \<rparr>"

definition short_bvn_field :: field where
  "short_bvn_field =
     \<lparr> el_value = js ''12'', el_type = ''text'', el_context = js ''bvn'',
       el_form_action = None \<rparr>"

definition comment_field :: field where
  "comment_field =
     \<lparr> el_value = js ''hello'', el_type = ''text'', el_context = js ''comment'',
       el_form_action = None \<rparr>"

text \<open>A text input labelled as a card number, holding the given value.\<close>

definition card_field :: "string \<Rightarrow> field" where
  "card_field v =
     \<lparr> el_value = js v, el_type = ''text'', el_context = js ''card number'',
       el_form_action = None \<rparr>"

text \<open>A log entry with the given timestamp.\<close>

definition example_entry :: "int \<Rightarrow> log_entry" where
  "example_entry ts =
     \<lparr> log_ts = ts, log_url = js ''http://shop.example/pay'', log_host = js ''shop.example'',
       log_https = False, log_formAction = None, log_types = [Password], log_risk = 100,
       log_level = High, log_sample = None, log_action = ''allowed-submit'' \<rparr>"

text \<open>A login form posting to another host, and a form with a comment box only.\<close>

definition login_form :: form where
  "login_form =
     \<lparr> form_action = Some (js ''https://collect.example/login''),
       form_inputs = [password_field] \<rparr>"

definition comment_form :: form where
  "comment_form = \<lparr> form_action = None, form_inputs = [comment_field] \<rparr>"

section \<open>Webcam and microphone guard: the background manager\<close>

text \<open>\<^verbatim>\<open>this.settings\<close> of \<^verbatim>\<open>WebcamMicPrivacyExtension/background.js\<close>.\<close>

record guard_settings =
  webcamBlocked :: bool
  micBlocked :: bool
  showNotifications :: bool
  logActivity :: bool
  autoBlockBackground :: bool
  fakeMediaEnabled :: bool
  notificationSound :: bool

text \<open>A temporary grant, as the popup stores it for a site.\<close>

record temp_perms =
  webcam :: bool
  microphone :: bool
  expiry :: int

text \<open>
  A JavaScript \<^verbatim>\<open>Map\<close> from site to grant, as its entries in insertion order. A
  \<^verbatim>\<open>Map\<close> holds each key once.
\<close>

type_synonym perm_map = "(js_string \<times> temp_perms) list"

definition wf_map :: "perm_map \<Rightarrow> bool" where
  "wf_map m = distinct (map fst m)"

text \<open>\<^verbatim>\<open>Map.prototype.get\<close> and \<^verbatim>\<open>Map.prototype.delete\<close>.\<close>

definition map_get :: "perm_map \<Rightarrow> js_string \<Rightarrow> temp_perms option" where
  "map_get m site = map_of m site"

definition map_delete :: "js_string \<Rightarrow> perm_map \<Rightarrow> perm_map" where
  "map_delete site m = filter (\<lambda>e. fst e \<noteq> site) m"

text \<open>
  The manager: its settings, the map of temporary grants, and the part of
  \<^verbatim>\<open>chrome.storage.local\<close> it writes: the object stored under
  \<^verbatim>\<open>temporaryPermissions\<close> (\<open>None\<close> when absent) and the number of
  \<^verbatim>\<open>chrome.storage.local.set\<close> calls made for it so far.
\<close>

record background_manager =
  settings :: guard_settings
  temporaryPermissions :: perm_map
  stored_temporaryPermissions :: "perm_map option"
  storage_set_calls :: nat

text \<open>The object \<^verbatim>\<open>checkSitePermissions\<close> returns.\<close>

record site_permissions =
  webcamAllowed :: bool
  microphoneAllowed :: bool
  reason :: string
  reported_expiry :: "int option"

text \<open>\<^verbatim>\<open>checkSitePermissions(hostname, isBackground)\<close>, with \<^verbatim>\<open>Date.now()\<close> as \<open>now\<close>.\<close>

definition checkSitePermissions ::
  "background_manager \<Rightarrow> js_string \<Rightarrow> bool \<Rightarrow> int \<Rightarrow> site_permissions" where
  "checkSitePermissions mgr hostname isBackground now =
     (if isBackground \<and> autoBlockBackground (settings mgr)
      then \<lparr> webcamAllowed = False, microphoneAllowed = False, reason = ''backgroundTab'',
             reported_expiry = None \<rparr>
      else case map_get (temporaryPermissions mgr) hostname of
        Some tempPerms \<Rightarrow>
          if expiry tempPerms > now
          then \<lparr> webcamAllowed = (webcam tempPerms \<and> \<not> webcamBlocked (settings mgr)),
                 microphoneAllowed = (microphone tempPerms \<and> \<not> micBlocked (settings mgr)),
                 reason = ''temporary'', reported_expiry = Some (expiry tempPerms) \<rparr>
          else \<lparr> webcamAllowed = (\<not> webcamBlocked (settings mgr)),
                 microphoneAllowed = (\<not> micBlocked (settings mgr)),
                 reason = ''global'', reported_expiry = None \<rparr>
      | None \<Rightarrow>
          \<lparr> webcamAllowed = (\<not> webcamBlocked (settings mgr)),
            microphoneAllowed = (\<not> micBlocked (settings mgr)),
            reason = ''global'', reported_expiry = None \<rparr>)"

text \<open>What the check returns from the global settings alone.\<close>

definition global_permissions :: "guard_settings \<Rightarrow> site_permissions" where
  "global_permissions s =
     \<lparr> webcamAllowed = (\<not> webcamBlocked s), microphoneAllowed = (\<not> micBlocked s),
       reason = ''global'', reported_expiry = None \<rparr>"

text \<open>What the check returns for an auto-blocked background tab.\<close>

definition background_denial :: site_permissions where
  "background_denial =
     \<lparr> webcamAllowed = False, microphoneAllowed = False, reason = ''backgroundTab'',
       reported_expiry = None \<rparr>"

text \<open>
  The loop of \<^verbatim>\<open>cleanupExpiredPermissions\<close> over the entries of the map: the first
  argument is the entries still to visit, the pair is the map and \<^verbatim>\<open>hasExpired\<close>.
\<close>

fun cleanup_loop :: "perm_map \<Rightarrow> int \<Rightarrow> perm_map \<times> bool \<Rightarrow> perm_map \<times> bool" where
  "cleanup_loop [] now (m, hasExpired) = (m, hasExpired)"
| "cleanup_loop ((site, perms) # rest) now (m, hasExpired) =
     (if expiry perms \<le> now
      then cleanup_loop rest now (map_delete site m, True)
      else cleanup_loop rest now (m, hasExpired))"

text \<open>
  \<^verbatim>\<open>cleanupExpiredPermissions()\<close>, with \<^verbatim>\<open>Date.now()\<close> as \<open>now\<close>. When something
  expired, the pruned map is written to storage as an object.
\<close>

definition cleanupExpiredPermissions :: "background_manager \<Rightarrow> int \<Rightarrow> background_manager" where
  "cleanupExpiredPermissions mgr now =
     (let (m, hasExpired) =
            cleanup_loop (temporaryPermissions mgr) now (temporaryPermissions mgr, False);
          mgr = mgr \<lparr> temporaryPermissions := m \<rparr>
      in if hasExpired
         then mgr \<lparr> stored_temporaryPermissions := Some m,
                    storage_set_calls := storage_set_calls mgr + 1 \<rparr>
         else mgr)"

text \<open>The sites the loop deletes: those of the entries whose expiry has passed.\<close>

definition expired_sites :: "perm_map \<Rightarrow> int \<Rightarrow> js_string list" where
  "expired_sites es now = map fst (filter (\<lambda>e. expiry (snd e) \<le> now) es)"

text \<open>The two capabilities, to state facts about either of them.\<close>

datatype capability = Webcam | Microphone

fun covers :: "temp_perms \<Rightarrow> capability \<Rightarrow> bool" where
  "covers g Webcam = webcam g"
| "covers g Microphone = microphone g"

fun allowed :: "site_permissions \<Rightarrow> capability \<Rightarrow> bool" where
  "allowed r Webcam = webcamAllowed r"
| "allowed r Microphone = microphoneAllowed r"

fun globally_blocked :: "guard_settings \<Rightarrow> capability \<Rightarrow> bool" where
  "globally_blocked s Webcam = webcamBlocked s"
| "globally_blocked s Microphone = micBlocked s"

text \<open>The defaults \<^verbatim>\<open>loadSettings\<close> asks storage for.\<close>

definition default_guard_settings :: guard_settings where
  "default_guard_settings =
     \<lparr> webcamBlocked = True, micBlocked = True, showNotifications = True,
       logActivity = True, autoBlockBackground = True, fakeMediaEnabled = False,
       notificationSound = True \<rparr>"

text \<open>
  A manager with one temporary grant, for a site named \<^verbatim>\<open>example.com\<close>, and
  nothing in storage yet.
\<close>

definition example_site :: js_string where
  "example_site = js ''example.com''"

definition manager_with :: "guard_settings \<Rightarrow> temp_perms \<Rightarrow> background_manager" where
  "manager_with s g =
     \<lparr> settings = s, temporaryPermissions = [(example_site, g)],
       stored_temporaryPermissions = None, storage_set_calls = 0 \<rparr>"



section \<open>Properties of the risk score\<close>

lemma TYPE_WEIGHT_nonneg: "0 \<le> TYPE_WEIGHT t"
  by (cases t) simp_all

lemma unique_snoc: "unique (xs @ [x]) = set_add x (unique xs)"
  by (simp add: unique_def)

lemma base_snoc_mono:
  "fold (\<lambda>t b. b + TYPE_WEIGHT t) (unique xs) 0
   \<le> fold (\<lambda>t b. b + TYPE_WEIGHT t) (unique (xs @ [x])) 0"
  using TYPE_WEIGHT_nonneg [of x]
  by (simp add: unique_snoc set_add_def)

lemma level_computeRisk:
  "level (computeRisk a)
   = (if score (computeRisk a) \<ge> 70 then High
      else if score (computeRisk a) \<ge> 40 then Mod else Low)"
  by (simp only: computeRisk_def Let_def risk.select_convs)

lemma score_computeRisk:
  "score (computeRisk a)
   = max 0 (min 100 (min (fold (\<lambda>t b. b + TYPE_WEIGHT t) (unique (types a)) 0) 100
                      + penalties a))"
  unfolding computeRisk_def Let_def risk.select_convs penalties_def
  by (cases "https a"; cases "crossOrigin a"; cases "trusted a") simp_all

lemma clamp_mono:
  "(x::int) \<le> y \<Longrightarrow> max 0 (min 100 (min x 100 + p)) \<le> max 0 (min 100 (min y 100 + p))"
  by simp

text \<open>
  C1, as the code computes it. With no sensitive type, a secure connection, a
  cross-origin form action and an untrusted domain, the cross-origin penalty (20) and
  the untrusted-domain penalty (20) both apply: the score is 40 and the level moderate.
\<close>

theorem computeRisk_cross_origin_untrusted:
  "computeRisk \<lparr> types = [], https = True, crossOrigin = True, trusted = False \<rparr>
   = \<lparr> score = 40, level = Mod,
       reasons = [''Form posts to different origin'', ''Domain not in trusted list''] \<rparr>"
  by (simp add: computeRisk_def unique_def)

text \<open>
  C1 as the scenario states it (score 20, level low) does not hold of the code at that
  input.
\<close>

theorem computeRisk_scenario_A_counterexample:
  "\<not> (score (computeRisk \<lparr> types = [], https = True, crossOrigin = True, trusted = False \<rparr>) = 20
      \<and> level (computeRisk \<lparr> types = [], https = True, crossOrigin = True, trusted = False \<rparr>) = Low)"
  by (simp add: computeRisk_def unique_def)

text \<open>
  C3: threshold consistency. The level is high exactly when the score is at least 70,
  low exactly when the score is below 40, and moderate exactly in between.
\<close>

theorem computeRisk_level_thresholds:
  "(level (computeRisk a) = High) = (70 \<le> score (computeRisk a))
   \<and> (level (computeRisk a) = Low) = (score (computeRisk a) < 40)
   \<and> (level (computeRisk a) = Mod) = (40 \<le> score (computeRisk a) \<and> score (computeRisk a) < 70)"
  unfolding level_computeRisk [of a] by simp

text \<open>
  C4: monotonicity. Appending a type to the list never lowers the score, and for a
  fixed type list the score of an untrusted domain is at least that of a trusted one.
\<close>

theorem computeRisk_monotone:
  "score (computeRisk a) \<le> score (computeRisk (a \<lparr> types := types a @ [t] \<rparr>))
   \<and> score (computeRisk (a \<lparr> trusted := True \<rparr>)) \<le> score (computeRisk (a \<lparr> trusted := False \<rparr>))"
proof
  have p: "penalties (a \<lparr> types := types a @ [t] \<rparr>) = penalties a"
    by (simp add: penalties_def)
  have t: "types (a \<lparr> types := types a @ [t] \<rparr>) = types a @ [t]"
    by simp
  show "score (computeRisk a) \<le> score (computeRisk (a \<lparr> types := types a @ [t] \<rparr>))"
    unfolding score_computeRisk p t
    by (rule clamp_mono [OF base_snoc_mono])
next
  have p: "penalties (a \<lparr> trusted := True \<rparr>) \<le> penalties (a \<lparr> trusted := False \<rparr>)"
    by (simp add: penalties_def)
  have t: "types (a \<lparr> trusted := True \<rparr>) = types a"
    "types (a \<lparr> trusted := False \<rparr>) = types a"
    by simp_all
  show "score (computeRisk (a \<lparr> trusted := True \<rparr>)) \<le> score (computeRisk (a \<lparr> trusted := False \<rparr>))"
    unfolding score_computeRisk t using p by simp
qed

section \<open>Properties of the background manager\<close>

lemma expired_sites_Cons:
  "expired_sites ((site, perms) # rest) now
   = (if expiry perms \<le> now then site # expired_sites rest now else expired_sites rest now)"
  by (simp add: expired_sites_def)

lemma cleanup_loop_eq:
  "cleanup_loop es now (m, h)
   = (filter (\<lambda>e. fst e \<notin> set (expired_sites es now)) m, h \<or> expired_sites es now \<noteq> [])"
proof (induction es arbitrary: m h)
  case Nil
  show ?case by (simp add: expired_sites_def)
next
  case (Cons e es)
  obtain site perms where e: "e = (site, perms)" by (cases e)
  show ?case
  proof (cases "expiry perms \<le> now")
    case True
    have "filter (\<lambda>e. fst e \<notin> set (expired_sites es now)) (map_delete site m)
          = filter (\<lambda>e. fst e \<notin> set (site # expired_sites es now)) m"
      by (simp add: map_delete_def conj_commute)
    with True show ?thesis
      by (simp add: e Cons.IH expired_sites_Cons)
  next
    case False
    then show ?thesis
      by (simp add: e Cons.IH expired_sites_Cons)
  qed
qed

lemma map_of_filter_notin:
  "map_of (filter (\<lambda>e. fst e \<notin> S) m) k = (if k \<in> S then None else map_of m k)"
  by (induction m) auto

lemma temporaryPermissions_cleanup:
  "temporaryPermissions (cleanupExpiredPermissions mgr now)
   = filter (\<lambda>e. fst e \<notin> set (expired_sites (temporaryPermissions mgr) now))
       (temporaryPermissions mgr)"
  by (simp add: cleanupExpiredPermissions_def cleanup_loop_eq Let_def)

lemma stored_cleanup:
  "stored_temporaryPermissions (cleanupExpiredPermissions mgr now)
   = (if expired_sites (temporaryPermissions mgr) now \<noteq> []
      then Some (temporaryPermissions (cleanupExpiredPermissions mgr now))
      else stored_temporaryPermissions mgr)"
  by (simp add: cleanupExpiredPermissions_def cleanup_loop_eq Let_def)

lemma expired_sites_iff:
  "site \<in> set (expired_sites m now) \<longleftrightarrow> (\<exists>g. (site, g) \<in> set m \<and> expiry g \<le> now)"
  by (auto simp: expired_sites_def image_iff)

lemma expired_grant_site:
  "map_get m site = Some g \<Longrightarrow> expiry g \<le> now \<Longrightarrow> site \<in> set (expired_sites m now)"
  unfolding expired_sites_iff map_get_def by (blast dest: map_of_SomeD)

lemma live_grant_site:
  assumes "wf_map m" "map_get m site = Some g" "expiry g > now"
  shows "site \<notin> set (expired_sites m now)"
proof
  assume "site \<in> set (expired_sites m now)"
  then obtain g' where g': "(site, g') \<in> set m" "expiry g' \<le> now"
    unfolding expired_sites_iff by blast
  from assms(1) g'(1) have "map_of m site = Some g'"
    unfolding wf_map_def by (rule map_of_is_SomeI)
  with assms(2) have "g' = g" by (simp add: map_get_def)
  with g'(2) assms(3) show False by simp
qed

lemma expired_grant_removed:
  assumes "map_get (temporaryPermissions mgr) site = Some g"
    and "expiry g \<le> now"
  shows "map_get (temporaryPermissions (cleanupExpiredPermissions mgr now)) site = None"
proof -
  have "site \<in> set (expired_sites (temporaryPermissions mgr) now)"
    using assms by (rule expired_grant_site)
  then show ?thesis
    unfolding temporaryPermissions_cleanup map_get_def
    by (simp add: map_of_filter_notin)
qed

lemma manager_with_simps:
  "settings (manager_with s g) = s"
  "temporaryPermissions (manager_with s g) = [(example_site, g)]"
  "stored_temporaryPermissions (manager_with s g) = None"
  "storage_set_calls (manager_with s g) = 0"
  by (simp_all add: manager_with_def)

lemma map_get_single: "map_get [(k, g)] k = Some g"
  by (simp add: map_get_def)

lemma cleanup_single_expired:
  "expiry g \<le> now \<Longrightarrow>
   cleanupExpiredPermissions (manager_with s g) now
   = \<lparr> settings = s, temporaryPermissions = [], stored_temporaryPermissions = Some [],
       storage_set_calls = 1 \<rparr>"
  by (simp add: cleanupExpiredPermissions_def manager_with_def map_delete_def)


lemma background_tab_denied:
  "isBackground \<Longrightarrow> autoBlockBackground (settings mgr) \<Longrightarrow>
   checkSitePermissions mgr site isBackground now = background_denial"
  by (simp add: checkSitePermissions_def background_denial_def)

lemma live_grant_answer:
  assumes "map_get (temporaryPermissions mgr) site = Some g"
    and "expiry g > now"
    and "\<not> (isBackground \<and> autoBlockBackground (settings mgr))"
  shows "checkSitePermissions mgr site isBackground now
         = \<lparr> webcamAllowed = (webcam g \<and> \<not> webcamBlocked (settings mgr)),
             microphoneAllowed = (microphone g \<and> \<not> micBlocked (settings mgr)),
             reason = ''temporary'', reported_expiry = Some (expiry g) \<rparr>"
  using assms by (auto simp: checkSitePermissions_def)

lemma block_never_overridden:
  "allowed (checkSitePermissions mgr site isBackground now) cap \<Longrightarrow>
   \<not> globally_blocked (settings mgr) cap"
  by (cases cap) (auto simp: checkSitePermissions_def split: option.splits if_splits)

lemma live_grant_kept:
  assumes "wf_map (temporaryPermissions mgr)"
    and "map_get (temporaryPermissions mgr) site = Some g"
    and "expiry g > now"
  shows "map_get (temporaryPermissions (cleanupExpiredPermissions mgr now)) site = Some g"
proof -
  have "site \<notin> set (expired_sites (temporaryPermissions mgr) now)"
    using assms by (rule live_grant_site)
  then show ?thesis
    unfolding temporaryPermissions_cleanup map_get_def
    using assms(2) by (simp add: map_of_filter_notin map_get_def)
qed




text \<open>
  C2 at a failing input. With the shipped settings (webcam blocked globally), in a
  foreground tab, a grant that covers the webcam and runs until 2000 is checked at time
  1000: the check answers from the grant (reason \<^verbatim>\<open>temporary\<close>) and still reports the
  webcam as not allowed.
\<close>

theorem live_grant_denied_at_defaults:
  "map_get (temporaryPermissions
       (manager_with default_guard_settings
          \<lparr> webcam = True, microphone = False, expiry = 2000 \<rparr>)) example_site
     = Some \<lparr> webcam = True, microphone = False, expiry = 2000 \<rparr>
   \<and> expiry \<lparr> webcam = True, microphone = False, expiry = 2000 \<rparr> > 1000
   \<and> covers \<lparr> webcam = True, microphone = False, expiry = 2000 \<rparr> Webcam
   \<and> checkSitePermissions
       (manager_with default_guard_settings
          \<lparr> webcam = True, microphone = False, expiry = 2000 \<rparr>)
       example_site False 1000
     = \<lparr> webcamAllowed = False, microphoneAllowed = False, reason = ''temporary'',
         reported_expiry = Some 2000 \<rparr>"
  by (simp add: manager_with_simps map_get_single default_guard_settings_def
      checkSitePermissions_def)

text \<open>
  C8, as the code has it. A grant whose expiry is not strictly in the future is never
  used by the permission check: the check answers with the background-tab denial when
  the tab is an auto-blocked background tab, and from the global settings otherwise.
  The expiry sweep removes the grant from the map and writes the pruned map to storage.
\<close>

theorem expired_grant_inactive:
  assumes "map_get (temporaryPermissions mgr) site = Some g"
    and "expiry g \<le> now"
  shows "checkSitePermissions mgr site isBackground now
         = (if isBackground \<and> autoBlockBackground (settings mgr) then background_denial
            else global_permissions (settings mgr))
         \<and> map_get (temporaryPermissions (cleanupExpiredPermissions mgr now)) site = None
         \<and> stored_temporaryPermissions (cleanupExpiredPermissions mgr now)
           = Some (temporaryPermissions (cleanupExpiredPermissions mgr now))"
proof (intro conjI)
  show "checkSitePermissions mgr site isBackground now
         = (if isBackground \<and> autoBlockBackground (settings mgr) then background_denial
            else global_permissions (settings mgr))"
    using assms
    by (simp add: checkSitePermissions_def background_denial_def global_permissions_def)
next
  have ex: "site \<in> set (expired_sites (temporaryPermissions mgr) now)"
    using assms by (rule expired_grant_site)
  show "map_get (temporaryPermissions (cleanupExpiredPermissions mgr now)) site = None"
    using assms by (rule expired_grant_removed)
  from ex have "expired_sites (temporaryPermissions mgr) now \<noteq> []" by auto
  then show "stored_temporaryPermissions (cleanupExpiredPermissions mgr now)
           = Some (temporaryPermissions (cleanupExpiredPermissions mgr now))"
    by (simp add: stored_cleanup)
qed

text \<open>
  The theorem at a grant that expired at 999, checked and swept at time 1000.
\<close>

theorem expired_grant_inactive_witness:
  "checkSitePermissions
     (manager_with default_guard_settings \<lparr> webcam = True, microphone = False, expiry = 999 \<rparr>)
     example_site False 1000
   = global_permissions default_guard_settings
   \<and> map_get (temporaryPermissions (cleanupExpiredPermissions
       (manager_with default_guard_settings \<lparr> webcam = True, microphone = False, expiry = 999 \<rparr>)
       1000)) example_site = None
   \<and> stored_temporaryPermissions (cleanupExpiredPermissions
       (manager_with default_guard_settings \<lparr> webcam = True, microphone = False, expiry = 999 \<rparr>)
       1000) = Some []"
  using expired_grant_inactive
    [of "manager_with default_guard_settings \<lparr> webcam = True, microphone = False, expiry = 999 \<rparr>"
        example_site "\<lparr> webcam = True, microphone = False, expiry = 999 \<rparr>" 1000 False]
  by (simp add: manager_with_simps map_get_single cleanup_single_expired)

text \<open>
  C8 as stated fails in its parenthesis: for an auto-blocked background tab the check
  does not fall through to the global settings (which here would allow the webcam), it
  returns the background-tab denial.
\<close>

theorem expired_grant_background_counterexample:
  "map_get (temporaryPermissions
       (manager_with (default_guard_settings \<lparr> webcamBlocked := False \<rparr>)
          \<lparr> webcam = True, microphone = False, expiry = 999 \<rparr>)) example_site
     = Some \<lparr> webcam = True, microphone = False, expiry = 999 \<rparr>
   \<and> expiry \<lparr> webcam = True, microphone = False, expiry = 999 \<rparr> \<le> 1000
   \<and> checkSitePermissions
       (manager_with (default_guard_settings \<lparr> webcamBlocked := False \<rparr>)
          \<lparr> webcam = True, microphone = False, expiry = 999 \<rparr>)
       example_site True 1000
     \<noteq> global_permissions (default_guard_settings \<lparr> webcamBlocked := False \<rparr>)"
  by (simp add: manager_with_simps map_get_single default_guard_settings_def
      checkSitePermissions_def global_permissions_def)




section \<open>Properties of the audit log and of the classifier\<close>

lemma effective_logLimit_nonzero: "effective_logLimit s \<noteq> 0"
  by (simp add: effective_logLimit_def DEFAULT_SETTINGS_def)

lemma ring_trim_stop: "\<not> int (length logs) > limit \<Longrightarrow> ring_trim limit logs = Some logs"
  by (subst ring_trim.simps) simp

lemma ring_trim_step:
  "int (length logs) > limit \<Longrightarrow> ring_trim limit logs = ring_trim limit (js_shift logs)"
  by (subst ring_trim.simps) simp

lemma ring_trim_full:
  assumes "int (length logs) = limit" and "limit \<noteq> 0"
  shows "ring_trim limit (logs @ [entry]) = Some (tl logs @ [entry])"
proof -
  from assms obtain oldest rest where logs: "logs = oldest # rest"
    by (cases logs) auto
  have "ring_trim limit (logs @ [entry]) = ring_trim limit (js_shift (logs @ [entry]))"
    using assms(1) by (intro ring_trim_step) simp
  also have "js_shift (logs @ [entry]) = rest @ [entry]"
    by (simp add: logs)
  also have "ring_trim limit (rest @ [entry]) = Some (rest @ [entry])"
    using assms(1) by (intro ring_trim_stop) (simp add: logs)
  finally show ?thesis by (simp add: logs)
qed

lemma ring_trim_total:
  "0 \<le> limit \<Longrightarrow> \<exists>r. ring_trim limit logs = Some r"
proof (induction logs)
  case Nil
  then show ?case by (simp add: ring_trim_stop)
next
  case (Cons x xs)
  show ?case
  proof (cases "int (length (x # xs)) > limit")
    case True
    then have "ring_trim limit (x # xs) = ring_trim limit xs"
      using ring_trim_step [of limit "x # xs"] by simp
    with Cons show ?thesis by simp
  next
    case False
    then show ?thesis by (simp add: ring_trim_stop)
  qed
qed

lemma set_set_add: "set (set_add x acc) = insert x (set acc)"
  by (auto simp: set_add_def)

lemma mem_add_if: "t' \<in> set (add_if c t acc) \<longleftrightarrow> (c \<and> t' = t) \<or> t' \<in> set acc"
  by (auto simp: add_if_def set_set_add)

lemma luhn_loop_eq:
  "k \<le> length ds \<Longrightarrow>
   luhn_loop ds k acc flip = acc + mod10_total flip (rev (map parseInt (take k ds)))"
proof (induction k arbitrary: acc flip)
  case 0
  show ?case by simp
next
  case (Suc i)
  then have i: "i < length ds" by simp
  have tk: "take (Suc i) ds = take i ds @ [ds ! i]"
    using i by (rule take_Suc_conv_app_nth)
  show ?case
    using Suc.IH [of _ "\<not> flip"] i
    by (simp add: tk Let_def mult.commute)
qed

lemma luhnCheck_iff:
  "luhnCheck v = (12 \<le> length (strip_non_digits v) \<and> mod10_valid (digit_values v))"
  by (simp add: luhnCheck_def Let_def luhn_loop_eq mod10_valid_def digit_values_def not_less)

lemma space_not_digit: "is_js_space c \<Longrightarrow> \<not> is_digit c"
  by (auto simp: is_js_space_def is_digit_def)

lemma filter_dropWhile_disjoint:
  "(\<And>x. Q x \<Longrightarrow> \<not> P x) \<Longrightarrow> filter P (dropWhile Q xs) = filter P xs"
  by (induction xs) auto

lemma strip_trim: "strip_non_digits (js_trim v) = strip_non_digits v"
proof -
  have "filter is_digit (rev (dropWhile is_js_space (rev (dropWhile is_js_space v))))
        = rev (filter is_digit (dropWhile is_js_space (rev (dropWhile is_js_space v))))"
    by (simp add: rev_filter)
  also have "\<dots> = rev (filter is_digit (rev (dropWhile is_js_space v)))"
    by (simp add: filter_dropWhile_disjoint space_not_digit)
  also have "\<dots> = filter is_digit (dropWhile is_js_space v)"
    by (simp add: rev_filter)
  also have "\<dots> = filter is_digit v"
    by (simp add: filter_dropWhile_disjoint space_not_digit)
  finally show ?thesis by (simp add: strip_non_digits_def js_trim_def)
qed

lemma cardNumber_detected:
  "CardNumber \<in> set (detectTypes re el)
   \<longleftrightarrow> (re CardNumber (js_trim (el_value el)) \<or> keyword_hit (el_context el) CardNumber)
       \<and> 13 \<le> length (strip_non_digits (el_value el))
       \<and> length (strip_non_digits (el_value el)) \<le> 19
       \<and> luhnCheck (js_trim (el_value el))"
  by (simp add: detectTypes_def Let_def mem_add_if strip_trim)

lemma failing_card_digits:
  "\<not> mod10_valid (digit_values (el_value (card_field ''4111 1111 1111 1112'')))"
  by (simp add: card_field_def js_def digit_values_def strip_non_digits_def is_digit_def
      parseInt_def mod10_valid_def)

lemma digit_values_trim: "digit_values (js_trim v) = digit_values v"
  by (simp add: digit_values_def strip_trim)

text \<open>
  C7: the audit log is a bounded first-in first-out buffer. When the stored log already
  holds as many entries as the capacity (\<^verbatim>\<open>logLimit\<close>, or the default 800 when it is
  unset), appending an entry returns, evicts the oldest entry, keeps all the newer ones
  in order with the new entry last, and leaves exactly as many entries as the capacity.
\<close>

theorem appendLog_ring_buffer:
  assumes "int (length logs) = effective_logLimit s"
  shows "logs \<noteq> []
         \<and> appendLog s entry (Some logs) = Some (tl logs @ [entry])
         \<and> int (length (tl logs @ [entry])) = effective_logLimit s"
proof (intro conjI)
  show ne: "logs \<noteq> []"
    using assms effective_logLimit_nonzero [of s] by auto
  show "appendLog s entry (Some logs) = Some (tl logs @ [entry])"
    unfolding appendLog_def Let_def
    using ring_trim_full [OF assms effective_logLimit_nonzero] by simp
  show "int (length (tl logs @ [entry])) = effective_logLimit s"
    using assms ne by (cases logs) auto
qed

text \<open>The theorem at a log of capacity 2 that holds two entries.\<close>

theorem appendLog_ring_buffer_witness:
  "appendLog (DEFAULT_SETTINGS \<lparr> logLimit := 2 \<rparr>) (example_entry 3)
     (Some [example_entry 1, example_entry 2])
   = Some [example_entry 2, example_entry 3]"
  using appendLog_ring_buffer
    [of "[example_entry 1, example_entry 2]" "DEFAULT_SETTINGS \<lparr> logLimit := 2 \<rparr>"
        "example_entry 3"]
  by (simp add: effective_logLimit_def)

text \<open>
  C9: a field value whose digits fail the mod-10 check-digit test is never classified
  as a card number, whatever the card-number pattern and the card keywords say.
\<close>

theorem luhn_failure_blocks_cardNumber:
  assumes "\<not> mod10_valid (digit_values (el_value el))"
  shows "CardNumber \<notin> set (detectTypes re el)"
proof
  assume "CardNumber \<in> set (detectTypes re el)"
  then have "luhnCheck (js_trim (el_value el))"
    by (simp add: cardNumber_detected)
  then have "mod10_valid (digit_values (js_trim (el_value el)))"
    by (simp add: luhnCheck_iff)
  then have "mod10_valid (digit_values (el_value el))"
    by (simp add: digit_values_def strip_trim)
  with assms show False by simp
qed

text \<open>
  The theorem at a field labelled as a card number whose value has the shape of one but
  a wrong check digit, with every pattern matching.
\<close>

theorem luhn_failure_blocks_cardNumber_witness:
  "\<not> mod10_valid (digit_values (el_value (card_field ''4111 1111 1111 1112'')))
   \<and> CardNumber \<notin> set (detectTypes all_match (card_field ''4111 1111 1111 1112''))"
  using luhn_failure_blocks_cardNumber
    [of "card_field ''4111 1111 1111 1112''" all_match] failing_card_digits
  by simp

text \<open>With the right check digit the same field is classified as a card number.\<close>

lemma valid_card_detected:
  "CardNumber \<in> set (detectTypes all_match (card_field ''4111 1111 1111 1111''))"
proof -
  have "12 \<le> length (strip_non_digits (el_value (card_field ''4111 1111 1111 1111'')))
        \<and> length (strip_non_digits (el_value (card_field ''4111 1111 1111 1111''))) \<le> 19
        \<and> 13 \<le> length (strip_non_digits (el_value (card_field ''4111 1111 1111 1111'')))
        \<and> mod10_valid (digit_values (el_value (card_field ''4111 1111 1111 1111'')))"
    by (simp add: card_field_def js_def digit_values_def strip_non_digits_def is_digit_def
        parseInt_def mod10_valid_def)
  then show ?thesis
    by (simp add: cardNumber_detected luhnCheck_iff strip_trim digit_values_trim all_match_def)
qed

section \<open>Properties of the submit listener and of the change handler\<close>

lemma on_submit_disabled:
  "\<not> enableProtection (SETTINGS st) \<Longrightarrow> on_submit b st f = untouched st"
  by (simp add: on_submit_def untouched_def)

lemma on_submit_no_types:
  "form_types b f = [] \<Longrightarrow> on_submit b st f = untouched st"
  by (simp add: on_submit_def untouched_def Let_def)

lemma form_risk_fold:
  "computeRisk \<lparr> types = form_types b f, https = isHTTPS b,
       crossOrigin = (action_host b (form_action f) \<noteq> []
                      \<and> action_host b (form_action f) \<noteq> CURRENT_HOST b),
       trusted = (CURRENT_HOST b \<in> set (trustedDomains (SETTINGS st))) \<rparr>
   = form_risk b st f"
  by (simp only: form_risk_def Let_def)

lemma on_submit_block:
  assumes "enableProtection (SETTINGS st)" "form_types b f \<noteq> []" "block_condition b st f"
  shows "defaultPrevented (on_submit b st f)"
    and "submit_modal (on_submit b st f) \<noteq> None"
    and "submit_state (on_submit b st f) = st \<lparr> pendingFormToSubmit := Some f \<rparr>"
    and "submit_logged (on_submit b st f) = [submit_entry b f (form_types b f) (form_risk b st f) ''blocked-submit'']"
  unfolding on_submit_def Let_def form_risk_fold
  using assms by (simp_all add: block_condition_def)

lemma on_submit_allow:
  assumes "enableProtection (SETTINGS st)" "form_types b f \<noteq> []" "\<not> block_condition b st f"
  shows "\<not> defaultPrevented (on_submit b st f)"
    and "submit_modal (on_submit b st f) = None"
    and "submit_state (on_submit b st f) = st \<lparr> proceedOnceFlag := False \<rparr>"
    and "submit_logged (on_submit b st f) = [submit_entry b f (form_types b f) (form_risk b st f) ''allowed-submit'']"
  unfolding on_submit_def Let_def form_risk_fold
  using assms by (auto simp: block_condition_def)

lemma kw_bvn: "keyword_hit (js ''bvn'') t = (t = Bvn)"
  by (cases t) (simp_all add: keyword_hit_def js_def)

lemma kw_password: "keyword_hit (js ''password'') t = (t = Password)"
  by (cases t) (simp_all add: keyword_hit_def js_def)

lemma kw_comment: "keyword_hit (js ''comment'') t = False"
  by (cases t) (simp_all add: keyword_hit_def js_def)

lemma detect_short_bvn_field: "detectTypes no_match short_bvn_field = [Bvn]"
  by (simp add: detectTypes_def Let_def add_if_def set_add_def kw_bvn no_match_def
      short_bvn_field_def)

lemma detect_password_field: "detectTypes no_match password_field = [Password]"
  by (simp add: detectTypes_def Let_def add_if_def set_add_def kw_password no_match_def
      password_field_def)

lemma detect_comment_field: "detectTypes no_match comment_field = []"
  by (simp add: detectTypes_def Let_def add_if_def set_add_def kw_comment no_match_def
      comment_field_def)

lemma login_form_types: "form_types example_page login_form = [Password]"
  by (simp add: form_types_def login_form_def example_page_def detect_password_field
      set_add_def)

lemma comment_form_types: "form_types example_page comment_form = []"
  by (simp add: form_types_def comment_form_def example_page_def detect_comment_field)

lemma hosts_differ: "js ''collect.example'' \<noteq> js ''shop.example''"
  by (simp add: js_def)

lemma login_form_risk:
  assumes "trustedDomains (SETTINGS st) = []"
  shows "form_risk example_page st login_form
   = \<lparr> score = 100, level = High,
       reasons = [''Contains: password'', ''Non-HTTPS connection'',
                  ''Form posts to different origin'', ''Domain not in trusted list''] \<rparr>"
proof -
  have host: "action_host example_page (form_action login_form) = js ''collect.example''"
    by (simp add: action_host_def login_form_def example_page_def js_def)
  show ?thesis
    unfolding form_risk_def host login_form_types Let_def
    using assms
    by (simp add: example_page_def hosts_differ computeRisk_def unique_def set_add_def js_def)
qed

lemma comment_form_risk:
  assumes "trustedDomains (SETTINGS st) = []"
  shows "level (form_risk example_page st comment_form) = Mod"
proof -
  have host: "action_host example_page (form_action comment_form) = js ''shop.example''"
    by (simp add: action_host_def comment_form_def example_page_def)
  show ?thesis
    unfolding form_risk_def host comment_form_types Let_def
    using assms
    by (simp add: example_page_def computeRisk_def unique_def)
qed

lemma example_state_simps:
  "enableProtection (SETTINGS example_state)"
  "blockOnHighRisk (SETTINGS example_state)"
  "trustedDomains (SETTINGS example_state) = []"
  "\<not> proceedOnceFlag example_state"
  by (simp_all add: example_state_def DEFAULT_SETTINGS_def)

lemma block_login_example: "block_condition example_page example_state login_form"
  by (simp add: block_condition_def login_form_risk example_state_simps)

lemma no_block_login_once:
  "\<not> block_condition example_page (example_state \<lparr> proceedOnceFlag := True \<rparr>) login_form"
  by (simp add: block_condition_def)

lemma no_block_comment: "\<not> block_condition example_page example_state comment_form"
  by (simp add: block_condition_def comment_form_risk example_state_simps)

lemma block_login_disabled:
  "block_condition example_page
     (example_state \<lparr> SETTINGS := DEFAULT_SETTINGS \<lparr> enableProtection := False \<rparr> \<rparr>) login_form"
  by (simp add: block_condition_def login_form_risk DEFAULT_SETTINGS_def example_state_def)

text \<open>
  C6, as the code has it. When protection is enabled and the form holds at least one
  sensitive type, the submission is blocked (submit event cancelled, override modal
  opened, form kept as pending, entry logged as \<^verbatim>\<open>blocked-submit\<close>) exactly when
  blocking on high risk is enabled, the computed level is high, the current host is not
  trusted and no one-time proceed override is pending; otherwise it proceeds, is logged
  as \<^verbatim>\<open>allowed-submit\<close>, and a pending one-time override is used up. When protection
  is disabled or no sensitive type is found, the submission proceeds and nothing is
  logged.
\<close>

theorem on_submit_decision:
  "(enableProtection (SETTINGS st) \<and> form_types b f \<noteq> [] \<longrightarrow>
      blocked (on_submit b st f) = block_condition b st f
      \<and> (block_condition b st f \<longrightarrow>
           submit_state (on_submit b st f) = st \<lparr> pendingFormToSubmit := Some f \<rparr>
           \<and> submit_logged (on_submit b st f) = [submit_entry b f (form_types b f) (form_risk b st f) ''blocked-submit''])
      \<and> (\<not> block_condition b st f \<longrightarrow>
           \<not> defaultPrevented (on_submit b st f)
           \<and> submit_state (on_submit b st f) = st \<lparr> proceedOnceFlag := False \<rparr>
           \<and> submit_logged (on_submit b st f) = [submit_entry b f (form_types b f) (form_risk b st f) ''allowed-submit'']))
   \<and> (\<not> (enableProtection (SETTINGS st) \<and> form_types b f \<noteq> []) \<longrightarrow>
        on_submit b st f = untouched st)"
proof (intro conjI impI)
  assume a: "enableProtection (SETTINGS st) \<and> form_types b f \<noteq> []"
  show "blocked (on_submit b st f) = block_condition b st f"
  proof (cases "block_condition b st f")
    case True
    with a show ?thesis by (simp add: blocked_def on_submit_block)
  next
    case False
    with a show ?thesis by (simp add: blocked_def on_submit_allow)
  qed
next
  assume "enableProtection (SETTINGS st) \<and> form_types b f \<noteq> []" "block_condition b st f"
  then show "submit_state (on_submit b st f) = st \<lparr> pendingFormToSubmit := Some f \<rparr>"
    and "submit_logged (on_submit b st f) = [submit_entry b f (form_types b f) (form_risk b st f) ''blocked-submit'']"
    by (simp_all add: on_submit_block)
next
  assume "enableProtection (SETTINGS st) \<and> form_types b f \<noteq> []" "\<not> block_condition b st f"
  then show "\<not> defaultPrevented (on_submit b st f)"
    and "submit_state (on_submit b st f) = st \<lparr> proceedOnceFlag := False \<rparr>"
    and "submit_logged (on_submit b st f) = [submit_entry b f (form_types b f) (form_risk b st f) ''allowed-submit'']"
    by (simp_all add: on_submit_allow)
next
  assume "\<not> (enableProtection (SETTINGS st) \<and> form_types b f \<noteq> [])"
  then show "on_submit b st f = untouched st"
    using on_submit_disabled [of st b f] on_submit_no_types [of b f st] by blast
qed

text \<open>
  The theorem at a login form on an insecure, untrusted page posting to another host
  (blocked; allowed once the one-time override is pending) and at a form with a comment
  box only (nothing happens).
\<close>

theorem on_submit_decision_witness:
  "blocked (on_submit example_page example_state login_form)
   \<and> submit_logged (on_submit example_page example_state login_form)
     = [submit_entry example_page login_form [Password]
          (form_risk example_page example_state login_form) ''blocked-submit'']
   \<and> \<not> defaultPrevented
        (on_submit example_page (example_state \<lparr> proceedOnceFlag := True \<rparr>) login_form)
   \<and> submit_logged
        (on_submit example_page (example_state \<lparr> proceedOnceFlag := True \<rparr>) login_form)
     = [submit_entry example_page login_form [Password]
          (form_risk example_page (example_state \<lparr> proceedOnceFlag := True \<rparr>) login_form)
          ''allowed-submit'']
   \<and> on_submit example_page example_state comment_form = untouched example_state"
  using on_submit_decision [of example_state example_page login_form]
    on_submit_decision [of "example_state \<lparr> proceedOnceFlag := True \<rparr>" example_page login_form]
    on_submit_decision [of example_state example_page comment_form]
  by (simp add: block_login_example no_block_login_once example_state_simps
      login_form_types comment_form_types)

text \<open>
  C6 as stated fails: with protection disabled the blocking condition holds for the login
  form and the submission is not blocked; and for the comment form the blocking
  condition does not hold, yet nothing is logged.
\<close>

theorem on_submit_unconditional_counterexample:
  "block_condition example_page
     (example_state \<lparr> SETTINGS := DEFAULT_SETTINGS \<lparr> enableProtection := False \<rparr> \<rparr>) login_form
   \<and> \<not> blocked (on_submit example_page
        (example_state \<lparr> SETTINGS := DEFAULT_SETTINGS \<lparr> enableProtection := False \<rparr> \<rparr>)
        login_form)
   \<and> \<not> block_condition example_page example_state comment_form
   \<and> submit_logged (on_submit example_page example_state comment_form) = []"
  by (simp add: block_login_disabled no_block_comment on_submit_disabled on_submit_no_types
      comment_form_types untouched_def blocked_def)

text \<open>
  C5 at a failing input. For a field labelled BVN that holds the two characters
  \<^verbatim>\<open>12\<close>, the change handler logs the sample \<^verbatim>\<open>slice(-4)\<close> of the value behind four
  bullets, and that sample contains the whole raw value.
\<close>

theorem short_value_logged_unmasked:
  "map log_sample (change_logged (onChange example_page example_state short_bvn_field))
     = [Some (bullets 4 @ js ''12'')]
   \<and> el_value short_bvn_field = js ''12''
   \<and> js_includes (bullets 4 @ js ''12'') (js ''12'')"
proof (intro conjI)
  have "anonymizeSample (js ''12'') (Some Bvn) = Some (bullets 4 @ js ''12'')"
    by (simp add: anonymizeSample_def js_def slice_last_def)
  then show "map log_sample (change_logged (onChange example_page example_state short_bvn_field))
     = [Some (bullets 4 @ js ''12'')]"
    using detect_short_bvn_field
    by (simp add: onChange_def Let_def example_state_simps example_page_def first_type_def
        short_bvn_field_def)
  show "el_value short_bvn_field = js ''12''"
    by (simp add: short_bvn_field_def)
  show "js_includes (bullets 4 @ js ''12'') (js ''12'')"
    by (simp add: bullets_def js_def bullet_def numeral_eq_Suc)
qed

end
